theory Spec2Isabelle
  imports Main "HOL-Library.Word"
begin

unbundle bit_operations_syntax

section \<open>Grid classes (Grid.cc)\<close>

text \<open>
  The enum \<open>GridClass\<close> is declared in Types.h, which is not among the sources. Its four
  values are the ones the switch statements of Grid.cc and Archive.cc enumerate; they are
  numbered from zero in the order \<open>UNKNOWN, LEVEL_SET, FOG_VOLUME, STAGGERED\<close>, and
  \<open>NUM_GRID_CLASSES\<close> is their count.
\<close>

datatype GridClass = GRID_UNKNOWN | GRID_LEVEL_SET | GRID_FOG_VOLUME | GRID_STAGGERED

fun gridClassToWord :: "GridClass \<Rightarrow> 32 word" where
  "gridClassToWord GRID_UNKNOWN = 0"
| "gridClassToWord GRID_LEVEL_SET = 1"
| "gridClassToWord GRID_FOG_VOLUME = 2"
| "gridClassToWord GRID_STAGGERED = 3"

definition NUM_GRID_CLASSES :: "32 word" where
  "NUM_GRID_CLASSES = 4"

text \<open>\<open>GridBase::gridClassToString\<close>: one string per case of the switch.\<close>

fun gridClassToString :: "GridClass \<Rightarrow> string" where
  "gridClassToString GRID_UNKNOWN = ''unknown''"
| "gridClassToString GRID_LEVEL_SET = ''level set''"
| "gridClassToString GRID_FOG_VOLUME = ''fog volume''"
| "gridClassToString GRID_STAGGERED = ''staggered''"

text \<open>
  \<open>openvdb::string::trim\<close> and \<open>openvdb::string::to_lower\<close> come from util/Name.h, which
  is not among the sources. \<open>stringToGridClass\<close> takes them as parameters; the two
  definitions below are the usual ones (strip leading and trailing C-locale white space,
  map \<open>A..Z\<close> to \<open>a..z\<close>).
\<close>

definition is_space :: "char \<Rightarrow> bool" where
  "is_space c = (let n = (of_char c :: nat) in n = 32 \<or> (9 \<le> n \<and> n \<le> 13))"

definition string_trim :: "string \<Rightarrow> string" where
  "string_trim s = rev (dropWhile is_space (rev (dropWhile is_space s)))"

definition to_lower_char :: "char \<Rightarrow> char" where
  "to_lower_char c =
     (let n = (of_char c :: nat) in if 65 \<le> n \<and> n \<le> 90 then char_of (n + 32) else c)"

definition string_to_lower :: "string \<Rightarrow> string" where
  "string_to_lower s = map to_lower_char s"

text \<open>\<open>GridBase::stringToGridClass\<close>: trim, lower-case, then the if/else-if chain.\<close>

definition stringToGridClass ::
  "(string \<Rightarrow> string) \<Rightarrow> (string \<Rightarrow> string) \<Rightarrow> string \<Rightarrow> GridClass" where
  "stringToGridClass trim to_lower s =
     (let str = to_lower (trim s) in
      if str = gridClassToString GRID_LEVEL_SET then GRID_LEVEL_SET
      else if str = gridClassToString GRID_FOG_VOLUME then GRID_FOG_VOLUME
      else if str = gridClassToString GRID_STAGGERED then GRID_STAGGERED
      else GRID_UNKNOWN)"

section \<open>Errors, bytes and metadata values\<close>

text \<open>
  An exception thrown with \<open>OPENVDB_THROW\<close> is a value: the exception class and its
  message. A function that can throw returns the exception, if any, together with the
  state it leaves behind.
\<close>

datatype error =
    IoError string
  | KeyError string
  | TypeError string
  | ValueError string
  | RuntimeError string

type_synonym addr = nat
type_synonym byte = "8 word"
type_synonym long = "64 word"
type_synonym uint32_t = "32 word"
type_synonym int64_t = "64 word"
type_synonym Name = string

text \<open>Little-endian layout of an integer in memory, as \<open>reinterpret_cast<char*>\<close> sees it.\<close>

fun le_word :: "byte list \<Rightarrow> 'a::len word" where
  "le_word [] = 0"
| "le_word (b # bs) = ucast b OR push_bit 8 (le_word bs)"

fun le_bytes :: "nat \<Rightarrow> 'a::len word \<Rightarrow> byte list" where
  "le_bytes 0 w = []"
| "le_bytes (Suc n) w = ucast w # le_bytes n (drop_bit 8 w)"

text \<open>
  Metadata.h and MetaMap.h are not among the sources. A metadata value is a string, a
  boolean, or a value of another registered type, of which only the type name, the
  \<open>str()\<close> rendering and the \<open>asBool()\<close> reading are kept. A \<open>MetaMap\<close> maps names to
  values; \<open>insertMeta\<close> refuses an empty name and a value whose type differs from the
  type of the value already stored under the name.
\<close>

datatype Metadata =
    StringMetadata string
  | BoolMetadata bool
  | OtherMetadata string string bool

fun typeName :: "Metadata \<Rightarrow> string" where
  "typeName (StringMetadata v) = ''string''"
| "typeName (BoolMetadata v) = ''bool''"
| "typeName (OtherMetadata ty s b) = ty"

fun str :: "Metadata \<Rightarrow> string" where
  "str (StringMetadata v) = v"
| "str (BoolMetadata v) = (if v then ''true'' else ''false'')"
| "str (OtherMetadata ty s b) = s"

fun asBool :: "Metadata \<Rightarrow> bool" where
  "asBool (StringMetadata v) = (v \<noteq> [])"
| "asBool (BoolMetadata v) = v"
| "asBool (OtherMetadata ty s b) = b"

type_synonym MetaMap = "Name \<rightharpoonup> Metadata"

definition insertMeta :: "Name \<Rightarrow> Metadata \<Rightarrow> MetaMap \<Rightarrow> error + MetaMap" where
  "insertMeta name m mm =
     (if name = [] then Inl (ValueError ''Metadata name cannot be an empty string'')
      else case mm name of
             None \<Rightarrow> Inr (mm(name \<mapsto> m))
           | Some old \<Rightarrow>
               if typeName old \<noteq> typeName m
               then Inl (TypeError ''Cannot assign value to metadata attribute of another type'')
               else Inr (mm(name \<mapsto> m)))"

definition removeMeta :: "Name \<Rightarrow> MetaMap \<Rightarrow> MetaMap" where
  "removeMeta name mm = mm(name := None)"

text \<open>\<open>getMetadata<StringMetadata>\<close>: the value, when the entry exists and is a string.\<close>

definition getStringMetadata :: "Name \<Rightarrow> MetaMap \<Rightarrow> string option" where
  "getStringMetadata name mm =
     (case mm name of Some (StringMetadata v) \<Rightarrow> Some v | _ \<Rightarrow> None)"

definition META_GRID_CLASS :: Name where "META_GRID_CLASS = ''class''"
definition META_GRID_NAME :: Name where "META_GRID_NAME = ''name''"
definition META_SAVE_HALF_FLOAT :: Name where "META_SAVE_HALF_FLOAT = ''is_saved_as_half_float''"
definition META_FILE_COMPRESSION :: Name where "META_FILE_COMPRESSION = ''file_compression''"
definition META_FILE_DELAYED_LOAD :: Name where "META_FILE_DELAYED_LOAD = ''file_delayed_load''"

section \<open>Grids (Grid.cc)\<close>

text \<open>
  A \<open>GridBase\<close> is a \<open>MetaMap\<close> with a type name and a pointer to its tree. Trees are
  objects of the heap, named by their address: two grids share a tree when their tree
  pointers are equal.
\<close>

record GridBase =
  metaMap :: MetaMap
  gridType :: Name
  treePtr :: addr

definition GridBase_getGridClass :: "GridBase \<Rightarrow> GridClass" where
  "GridBase_getGridClass g =
     (case getStringMetadata META_GRID_CLASS (metaMap g) of
        Some v \<Rightarrow> stringToGridClass string_trim string_to_lower v
      | None \<Rightarrow> GRID_UNKNOWN)"

definition getName :: "GridBase \<Rightarrow> string" where
  "getName g = (case metaMap g META_GRID_NAME of Some m \<Rightarrow> str m | None \<Rightarrow> [])"

definition saveFloatAsHalf :: "GridBase \<Rightarrow> bool" where
  "saveFloatAsHalf g =
     (case metaMap g META_SAVE_HALF_FLOAT of Some m \<Rightarrow> asBool m | None \<Rightarrow> False)"


section \<open>Build constants\<close>

text \<open>
  version.h and io/Compression.h are not among the sources. The version numbers and the
  build switches that Archive.cc names are parameters of the model, collected in one
  record; \<open>delayedLoadRegistered\<close> stands for \<open>DelayedLoadMetadata::isRegisteredType()\<close>.
\<close>

record build =
  OPENVDB_MAGIC :: int64_t
  OPENVDB_FILE_VERSION :: uint32_t
  OPENVDB_LIBRARY_MAJOR_VERSION :: uint32_t
  OPENVDB_LIBRARY_MINOR_VERSION :: uint32_t
  OPENVDB_FILE_VERSION_GRID_INSTANCING :: uint32_t
  OPENVDB_FILE_VERSION_BOOST_UUID :: uint32_t
  OPENVDB_FILE_VERSION_NO_GRIDMAP :: uint32_t
  OPENVDB_FILE_VERSION_SELECTIVE_COMPRESSION :: uint32_t
  OPENVDB_FILE_VERSION_NODE_MASK_COMPRESSION :: uint32_t
  OPENVDB_FILE_VERSION_BLOSC_COMPRESSION :: uint32_t
  OPENVDB_USE_BLOSC :: bool
  OPENVDB_USE_ZLIB :: bool
  delayedLoadRegistered :: bool

text \<open>
  Modelled from the spec: the compression flag set is a bitset with \<open>NONE = 0\<close> and the
  bits \<open>ZIP\<close>, \<open>ACTIVE_MASK\<close>, \<open>BLOSC\<close>, in this order.
\<close>

definition COMPRESS_NONE :: uint32_t where "COMPRESS_NONE = 0"
definition COMPRESS_ZIP :: uint32_t where "COMPRESS_ZIP = 1"
definition COMPRESS_ACTIVE_MASK :: uint32_t where "COMPRESS_ACTIVE_MASK = 2"
definition COMPRESS_BLOSC :: uint32_t where "COMPRESS_BLOSC = 4"

definition DEFAULT_COMPRESSION_FLAGS :: "build \<Rightarrow> uint32_t" where
  "DEFAULT_COMPRESSION_FLAGS b =
     (if OPENVDB_USE_BLOSC b then COMPRESS_BLOSC OR COMPRESS_ACTIVE_MASK
      else if OPENVDB_USE_ZLIB b then COMPRESS_ZIP OR COMPRESS_ACTIVE_MASK
      else COMPRESS_ACTIVE_MASK)"

section \<open>Stream metadata and per-stream state (Archive.cc)\<close>

record StreamMetadata =
  mFileVersion :: uint32_t
  mLibraryVersion :: "uint32_t \<times> uint32_t"
  mCompression :: uint32_t
  mGridClass :: uint32_t
  mBackgroundPtr :: "addr option"
  mHalfFloat :: bool
  mWriteGridStats :: bool
  mSeekable :: bool
  mCountingPasses :: bool
  mPass :: uint32_t
  mGridMetadata :: MetaMap
  mAuxData :: "(string \<times> string) list"
  mDelayedLoadMeta :: bool
  mLeaf :: "64 word"
  mTest :: uint32_t

text \<open>\<open>StreamMetadata::StreamMetadata()\<close>: the member initialisers of \<open>Impl\<close>.\<close>

definition new_StreamMetadata :: "build \<Rightarrow> StreamMetadata" where
  "new_StreamMetadata b =
     \<lparr> mFileVersion = OPENVDB_FILE_VERSION b,
       mLibraryVersion = (OPENVDB_LIBRARY_MAJOR_VERSION b, OPENVDB_LIBRARY_MINOR_VERSION b),
       mCompression = COMPRESS_NONE,
       mGridClass = gridClassToWord GRID_UNKNOWN,
       mBackgroundPtr = None,
       mHalfFloat = False,
       mWriteGridStats = False,
       mSeekable = False,
       mCountingPasses = False,
       mPass = 0,
       mGridMetadata = Map.empty,
       mAuxData = [],
       mDelayedLoadMeta = delayedLoadRegistered b,
       mLeaf = 0,
       mTest = 0 \<rparr>"

text \<open>
  Calls to the collaborators whose code is elsewhere (the grid's and the descriptor's
  readers and writers) are recorded in the order they are made; so are the entries into
  \<open>writeGrid\<close> and \<open>writeGridInstance\<close>, with the descriptor they are given.
\<close>

record GridDescriptor =
  gridName :: Name
  uniqueName :: Name
  instanceParentName :: Name
  gd_gridType :: Name
  gd_saveFloatAsHalf :: bool
  gridPos :: int64_t
  blockPos :: int64_t
  endPos :: int64_t

datatype call =
    ReadMeta | ReadTransform | ReadTopology | ReadBuffers
  | WriteArchiveMeta | WriteDescriptorHeader GridDescriptor | WriteStreamPos GridDescriptor
  | PopulateDelayedLoad | AddStatsMetadata
  | WriteMeta | WriteTransform | WriteTopology | WriteBuffers
  | SeekToEnd GridDescriptor
  | EnterWriteGrid GridDescriptor | EnterWriteGridInstance GridDescriptor

text \<open>
  The state a reader or writer works on: the stream (its \<open>iword\<close> and \<open>pword\<close> slots,
  one field per index of \<open>StreamState\<close>; the bytes still to be read and the fail bit of an
  input stream; the bytes written and the put position of an output stream) and the
  objects it reaches. \<open>long\<close> is 64 bits wide: \<open>StreamState::MAGIC_NUMBER\<close> stores
  \<open>(OPENVDB_MAGIC << 32) | OPENVDB_MAGIC\<close> in one.

  The metadata slot holds the address of a \<open>StreamMetadata::Ptr\<close> variable (or null);
  \<open>metas\<close> gives the object that variable points to, if any. Grid and tree pointers are
  addresses of objects; a null \<open>GridBase::Ptr\<close> is \<open>None\<close>. An output stream never
  fails in this model: a write always stores its bytes.
\<close>

type_synonym TreeBase = "byte list"

record state =
  iword_fileVersion :: long
  iword_libraryMajorVersion :: long
  iword_libraryMinorVersion :: long
  iword_dataCompression :: long
  iword_writeGridStatsMetadata :: long
  iword_gridClass :: long
  iword_halfFloat :: long
  pword_gridBackground :: "addr option"
  pword_mappedFile :: "addr option"
  pword_metadata :: "addr option"
  inbuf :: "byte list"
  failbit :: bool
  outbuf :: "byte list"
  pptr :: nat
  calls :: "call list"
  metas :: "addr \<rightharpoonup> StreamMetadata"
  grids :: "addr \<Rightarrow> GridBase"
  trees :: "addr \<Rightarrow> TreeBase"
  next_addr :: addr

text \<open>
  \<open>std::istream::read\<close> into a buffer whose contents before the call are \<open>buf\<close>: on a
  failed stream nothing is read; a short read stores what is left, keeps the rest of the
  buffer and sets the fail bit.
\<close>

definition istream_read :: "nat \<Rightarrow> byte list \<Rightarrow> state \<Rightarrow> byte list \<times> state" where
  "istream_read n buf s =
     (if failbit s then (buf, s)
      else if n \<le> length (inbuf s)
      then (take n (inbuf s), s\<lparr>inbuf := drop n (inbuf s)\<rparr>)
      else (inbuf s @ drop (length (inbuf s)) buf, s\<lparr>inbuf := [], failbit := True\<rparr>))"

text \<open>\<open>std::ostream::write\<close> at the put position, \<open>tellp\<close> and \<open>seekp\<close>.\<close>

definition ostream_write :: "byte list \<Rightarrow> state \<Rightarrow> state" where
  "ostream_write bs s =
     s\<lparr>outbuf := take (pptr s) (outbuf s @ replicate (pptr s - length (outbuf s)) 0)
                  @ bs @ drop (pptr s + length bs) (outbuf s),
       pptr := pptr s + length bs\<rparr>"

definition tellp :: "state \<Rightarrow> nat" where
  "tellp s = pptr s"

definition seekp :: "nat \<Rightarrow> state \<Rightarrow> state" where
  "seekp p s = s\<lparr>pptr := p\<rparr>"

subsection \<open>Slot accessors\<close>

definition getStreamMetadataPtr :: "state \<Rightarrow> addr option" where
  "getStreamMetadataPtr strm =
     (case pword_metadata strm of
        None \<Rightarrow> None
      | Some ptr \<Rightarrow> (case metas strm ptr of None \<Rightarrow> None | Some m \<Rightarrow> Some ptr))"

text \<open>\<open>if (StreamMetadata::Ptr meta = getStreamMetadataPtr(strm)) meta->set...(v)\<close>.\<close>

definition with_meta :: "(StreamMetadata \<Rightarrow> StreamMetadata) \<Rightarrow> state \<Rightarrow> state" where
  "with_meta f strm =
     (case getStreamMetadataPtr strm of
        None \<Rightarrow> strm
      | Some ptr \<Rightarrow> (case metas strm ptr of
                      None \<Rightarrow> strm
                    | Some m \<Rightarrow> strm\<lparr>metas := (metas strm)(ptr \<mapsto> f m)\<rparr>))"



definition setVersion :: "uint32_t \<times> uint32_t \<Rightarrow> uint32_t \<Rightarrow> state \<Rightarrow> state" where
  "setVersion libraryVersion fileVersion strm =
     with_meta (\<lambda>m. m\<lparr>mFileVersion := fileVersion, mLibraryVersion := libraryVersion\<rparr>)
       (strm\<lparr>iword_fileVersion := ucast fileVersion,
             iword_libraryMajorVersion := ucast (fst libraryVersion),
             iword_libraryMinorVersion := ucast (snd libraryVersion)\<rparr>)"

definition getDataCompression :: "state \<Rightarrow> uint32_t" where
  "getDataCompression strm = ucast (iword_dataCompression strm)"

definition setDataCompression :: "uint32_t \<Rightarrow> state \<Rightarrow> state" where
  "setDataCompression c strm =
     with_meta (\<lambda>m. m\<lparr>mCompression := c\<rparr>) (strm\<lparr>iword_dataCompression := ucast c\<rparr>)"

definition getWriteGridStatsMetadata :: "state \<Rightarrow> bool" where
  "getWriteGridStatsMetadata strm = (iword_writeGridStatsMetadata strm \<noteq> 0)"

definition setWriteGridStatsMetadata :: "bool \<Rightarrow> state \<Rightarrow> state" where
  "setWriteGridStatsMetadata writeGridStats strm =
     with_meta (\<lambda>m. m\<lparr>mWriteGridStats := writeGridStats\<rparr>)
       (strm\<lparr>iword_writeGridStatsMetadata := (if writeGridStats then 1 else 0)\<rparr>)"

text \<open>\<open>io::getGridClass\<close>: cast the word of the slot to \<open>uint32_t\<close>, then the range check.\<close>

definition getGridClass :: "state \<Rightarrow> uint32_t" where
  "getGridClass strm =
     (let val = (ucast (iword_gridClass strm) :: uint32_t) in
      if val \<ge> NUM_GRID_CLASSES then gridClassToWord GRID_UNKNOWN else val)"

definition setGridClass :: "uint32_t \<Rightarrow> state \<Rightarrow> state" where
  "setGridClass cls strm =
     with_meta (\<lambda>m. m\<lparr>mGridClass := cls\<rparr>) (strm\<lparr>iword_gridClass := ucast cls\<rparr>)"

definition getHalfFloat :: "state \<Rightarrow> bool" where
  "getHalfFloat strm = (iword_halfFloat strm \<noteq> 0)"

definition setHalfFloat :: "bool \<Rightarrow> state \<Rightarrow> state" where
  "setHalfFloat halfFloat strm =
     with_meta (\<lambda>m. m\<lparr>mHalfFloat := halfFloat\<rparr>)
       (strm\<lparr>iword_halfFloat := (if halfFloat then 1 else 0)\<rparr>)"

definition setGridBackgroundValuePtr :: "addr option \<Rightarrow> state \<Rightarrow> state" where
  "setGridBackgroundValuePtr background strm =
     with_meta (\<lambda>m. m\<lparr>mBackgroundPtr := background\<rparr>)
       (strm\<lparr>pword_gridBackground := background\<rparr>)"

text \<open>\<open>StreamMetadata::transferTo\<close> and \<open>io::setStreamMetadataPtr\<close>.\<close>

definition transferTo :: "StreamMetadata \<Rightarrow> state \<Rightarrow> state" where
  "transferTo m strm =
     setWriteGridStatsMetadata (mWriteGridStats m)
       (setHalfFloat (mHalfFloat m)
         (setGridClass (mGridClass m)
           (setGridBackgroundValuePtr (mBackgroundPtr m)
             (setDataCompression (mCompression m)
               (setVersion (mLibraryVersion m) (mFileVersion m) strm)))))"

definition setStreamMetadataPtr :: "addr \<Rightarrow> bool \<Rightarrow> state \<Rightarrow> state" where
  "setStreamMetadataPtr meta transfer strm =
     (let strm1 = strm\<lparr>pword_metadata := Some meta\<rparr> in
      case metas strm1 meta of
        Some m \<Rightarrow> if transfer then transferTo m strm1 else strm1
      | None \<Rightarrow> strm1)"

section \<open>The archive (Archive.cc)\<close>

record Archive =
  a_mFileVersion :: uint32_t
  a_mLibraryVersion :: "uint32_t \<times> uint32_t"
  mUuid :: string
  mInputHasGridOffsets :: bool
  mEnableInstancing :: bool
  a_mCompression :: uint32_t
  mEnableGridStats :: bool

definition new_Archive :: "build \<Rightarrow> Archive" where
  "new_Archive b =
     \<lparr> a_mFileVersion = OPENVDB_FILE_VERSION b,
       a_mLibraryVersion = (OPENVDB_LIBRARY_MAJOR_VERSION b, OPENVDB_LIBRARY_MINOR_VERSION b),
       mUuid = [],
       mInputHasGridOffsets = False,
       mEnableInstancing = True,
       a_mCompression = DEFAULT_COMPRESSION_FLAGS b,
       mEnableGridStats = True \<rparr>"

text \<open>
  \<open>Archive::setGridCompression\<close>: start from the archive's flags, clear \<open>ZIP\<close> for level
  sets and fog volumes, set the result on the stream and write its four bytes.
\<close>

definition setGridCompression :: "Archive \<Rightarrow> GridBase \<Rightarrow> state \<Rightarrow> state" where
  "setGridCompression a grid os =
     (let c = a_mCompression a;
          c = (case GridBase_getGridClass grid of
                 GRID_LEVEL_SET \<Rightarrow> c AND NOT COMPRESS_ZIP
               | GRID_FOG_VOLUME \<Rightarrow> c AND NOT COMPRESS_ZIP
               | GRID_STAGGERED \<Rightarrow> c
               | GRID_UNKNOWN \<Rightarrow> c)
      in ostream_write (le_bytes 4 c) (setDataCompression c os))"


subsection \<open>Reading the header\<close>

text \<open>
  A local variable that is read into before it is assigned has whatever bytes the stack
  held; \<open>uninit\<close> gives those bytes for each such variable, by name. Integers are laid
  out little-endian, as the file format is.
\<close>

definition c_str :: "byte list \<Rightarrow> string" where
  "c_str bs = map (\<lambda>b. char_of (unat b)) (takeWhile (\<lambda>b. b \<noteq> 0) bs)"

text \<open>
  The lambda \<open>to_hex\<close>; it keeps the low four bits of its argument only, so the sign
  extension of a \<open>char\<close> argument does not matter.
\<close>

definition to_hex :: "uint32_t \<Rightarrow> byte" where
  "to_hex c0 = (let c = c0 AND 0xf in if c < 10 then 48 + ucast c else ucast c - 10 + 65)"

text \<open>Step 2: the file format version; three words before version 211.\<close>

definition readHeader_fileVersion ::
  "build \<Rightarrow> (string \<Rightarrow> byte list) \<Rightarrow> Archive \<Rightarrow> state \<Rightarrow> Archive \<times> state" where
  "readHeader_fileVersion b uninit a strm =
     (let (buf, strm1) = istream_read 4 (le_bytes 4 (a_mFileVersion a)) strm;
          v = (le_word buf :: uint32_t)
      in if v > OPENVDB_FILE_VERSION b then (a\<lparr>a_mFileVersion := v\<rparr>, strm1)
         else if v < 211 then
           (let (vb1, strm2) = istream_read 4 (uninit ''version'') strm1;
                v1 = 100 * v + 10 * le_word vb1;
                (vb2, strm3) = istream_read 4 vb1 strm2
            in (a\<lparr>a_mFileVersion := v1 + le_word vb2\<rparr>, strm3))
         else (a\<lparr>a_mFileVersion := v\<rparr>, strm1))"

text \<open>Step 3: the library version, stored from version 211 on.\<close>

definition readHeader_libraryVersion ::
  "(string \<Rightarrow> byte list) \<Rightarrow> Archive \<Rightarrow> state \<Rightarrow> Archive \<times> state" where
  "readHeader_libraryVersion uninit a strm =
     (if a_mFileVersion a \<ge> 211 then
        (let (vb1, strm1) = istream_read 4 (uninit ''version'') strm;
             (vb2, strm2) = istream_read 4 vb1 strm1
         in (a\<lparr>a_mLibraryVersion := (le_word vb1, le_word vb2)\<rparr>, strm2))
      else (a\<lparr>a_mLibraryVersion := (0, 0)\<rparr>, strm))"

text \<open>Step 4: the flag for grid offsets, stored from version 212 on.\<close>

definition readHeader_gridOffsets ::
  "(string \<Rightarrow> byte list) \<Rightarrow> Archive \<Rightarrow> state \<Rightarrow> Archive \<times> state" where
  "readHeader_gridOffsets uninit a strm =
     (if a_mFileVersion a \<ge> 212 then
        (let (hasGridOffsets, strm1) = istream_read 1 (uninit ''hasGridOffsets'') strm
         in (a\<lparr>mInputHasGridOffsets := ((le_word hasGridOffsets :: byte) \<noteq> 0)\<rparr>, strm1))
      else (a\<lparr>mInputHasGridOffsets := True\<rparr>, strm))"

text \<open>Step 5: the compression flags.\<close>

definition readHeader_compression ::
  "build \<Rightarrow> (string \<Rightarrow> byte list) \<Rightarrow> Archive \<Rightarrow> state \<Rightarrow> Archive \<times> state" where
  "readHeader_compression b uninit a strm =
     (let c = DEFAULT_COMPRESSION_FLAGS b;
          c = (if a_mFileVersion a < OPENVDB_FILE_VERSION_BLOSC_COMPRESSION b
               then COMPRESS_ZIP OR COMPRESS_ACTIVE_MASK else c)
      in if a_mFileVersion a \<ge> OPENVDB_FILE_VERSION_SELECTIVE_COMPRESSION b \<and>
            a_mFileVersion a < OPENVDB_FILE_VERSION_NODE_MASK_COMPRESSION b
         then
           (let (isCompressed, strm1) = istream_read 1 (uninit ''isCompressed'') strm
            in (a\<lparr>a_mCompression :=
                    (if (le_word isCompressed :: byte) \<noteq> 0 then COMPRESS_ZIP else COMPRESS_NONE)\<rparr>,
                strm1))
         else (a\<lparr>a_mCompression := c\<rparr>, strm))"

text \<open>Step 6: the UUID, as 36 characters or, in older files, as 16 bytes shown in hex.\<close>

definition readHeader_uuid ::
  "build \<Rightarrow> (string \<Rightarrow> byte list) \<Rightarrow> Archive \<Rightarrow> state \<Rightarrow> Archive \<times> state" where
  "readHeader_uuid b uninit a strm =
     (if a_mFileVersion a \<ge> OPENVDB_FILE_VERSION_BOOST_UUID b then
        (let (uuidValues, strm1) = istream_read 36 (uninit ''uuidValues'') strm
         in (a\<lparr>mUuid := c_str (uuidValues @ [0])\<rparr>, strm1))
      else
        (let (uuidBytes, strm1) = istream_read 16 (uninit ''uuidBytes'') strm;
             uuidStr = concat (map (\<lambda>x. [to_hex (drop_bit 4 (ucast x)), to_hex (ucast x)]) uuidBytes)
         in (a\<lparr>mUuid := c_str (uuidStr @ [0])\<rparr>, strm1)))"

text \<open>
  \<open>Archive::readHeader\<close>: the exception, or the value returned, with the archive and the
  stream as the call leaves them.
\<close>

definition readHeader ::
  "build \<Rightarrow> (string \<Rightarrow> byte list) \<Rightarrow> Archive \<Rightarrow> state \<Rightarrow> (error + bool) \<times> Archive \<times> state" where
  "readHeader b uninit a strm =
     (let (magic, strm1) = istream_read 8 (uninit ''magic'') strm
      in if (le_word magic :: int64_t) \<noteq> OPENVDB_MAGIC b
         then (Inl (IoError ''not a VDB file''), a, strm1)
         else
           (let (a2, strm2) = readHeader_fileVersion b uninit a strm1;
                (a3, strm3) = readHeader_libraryVersion uninit a2 strm2;
                (a4, strm4) = readHeader_gridOffsets uninit a3 strm3;
                (a5, strm5) = readHeader_compression b uninit a4 strm4;
                oldUuid = mUuid a5;
                (a6, strm6) = readHeader_uuid b uninit a5 strm5
            in (Inr (if oldUuid = [] \<or> mUuid a6 = [] then True else oldUuid \<noteq> mUuid a6),
                a6, strm6)))"

subsection \<open>Writing the header\<close>

text \<open>
  \<open>entropy\<close> lists the values \<open>std::random_device\<close> delivers before it throws; four are
  needed. The loop stores eight hex digits per value, lowest digit first.
\<close>

fun uuid_digits :: "nat \<Rightarrow> uint32_t \<Rightarrow> byte list" where
  "uuid_digits 0 v = []"
| "uuid_digits (Suc j) v = to_hex v # uuid_digits j (drop_bit 4 v)"

definition swap_at :: "nat \<Rightarrow> nat \<Rightarrow> 'a list \<Rightarrow> 'a list" where
  "swap_at i j xs = xs[i := xs ! j, j := xs ! i]"

definition writeHeader ::
  "build \<Rightarrow> (string \<Rightarrow> byte list) \<Rightarrow> uint32_t list \<Rightarrow> bool \<Rightarrow> Archive \<Rightarrow> state
     \<Rightarrow> Archive \<times> state" where
  "writeHeader b uninit entropy seekable a os =
     (let os1 = ostream_write (le_bytes 8 (OPENVDB_MAGIC b)) os;
          os2 = ostream_write (le_bytes 4 (OPENVDB_FILE_VERSION b)) os1;
          os3 = ostream_write (le_bytes 4 (OPENVDB_LIBRARY_MAJOR_VERSION b)) os2;
          os4 = ostream_write (le_bytes 4 (OPENVDB_LIBRARY_MINOR_VERSION b)) os3;
          os5 = ostream_write [if seekable then 1 else 0] os4;
          uuidStr0 = take 37 (uninit ''uuidStr'' @ replicate 37 0);
          digits = concat (map (uuid_digits 8) (take 4 entropy));
          uuidStr1 = (if length entropy < 4
                      then (digits @ drop (length digits) uuidStr0)[0 := 0]
                      else digits @ drop 32 uuidStr0);
          uuidStr2 = uuidStr1[32 := 45, 33 := 45, 34 := 45, 35 := 45];
          uuidStr3 = swap_at 35 23 (swap_at 34 18 (swap_at 33 13 (swap_at 32 8 uuidStr2)));
          uuidStr4 = uuidStr3[36 := 0]
      in (a\<lparr>mUuid := c_str uuidStr4\<rparr>, ostream_write (take 36 uuidStr4) os5))"

subsection \<open>Grid descriptors\<close>

text \<open>
  GridDescriptor.cc is not among the sources. Modelled from the spec: a descriptor
  carries the grid name, the type tag, the half-float flag, the instance-parent name and
  three file offsets; it marks an instance when it names an instance parent. The unique
  name is the grid name with a separator and a number appended (\<open>addSuffix\<close>).
\<close>

definition SEP :: char where
  "SEP = CHR 0x1E"

function to_string :: "nat \<Rightarrow> string" where
  "to_string n =
     (if n < 10 then [char_of (48 + n)]
      else to_string (n div 10) @ [char_of (48 + n mod 10)])"
  by pat_completeness auto
termination
  by (relation "measure id") auto

declare to_string.simps [simp del]

text \<open>Reading a decimal numeral back; used to see that \<open>to_string\<close> is injective.\<close>

definition of_digits :: "string \<Rightarrow> nat" where
  "of_digits s = foldl (\<lambda>acc c. 10 * acc + (of_char c - 48)) 0 s"

definition addSuffix :: "Name \<Rightarrow> nat \<Rightarrow> Name" where
  "addSuffix name n = name @ [SEP] @ to_string n"

definition stripSuffix :: "Name \<Rightarrow> Name" where
  "stripSuffix name = takeWhile (\<lambda>c. c \<noteq> SEP) name"

definition nameAsString :: "Name \<Rightarrow> Name" where
  "nameAsString name =
     (if SEP \<in> set name
      then takeWhile (\<lambda>c. c \<noteq> SEP) name @ ''['' @ tl (dropWhile (\<lambda>c. c \<noteq> SEP) name) @ '']''
      else name)"

definition new_GridDescriptor :: "Name \<Rightarrow> Name \<Rightarrow> bool \<Rightarrow> GridDescriptor" where
  "new_GridDescriptor name ty half =
     \<lparr> gridName = stripSuffix name, uniqueName = name, instanceParentName = [],
       gd_gridType = ty, gd_saveFloatAsHalf = half, gridPos = 0, blockPos = 0, endPos = 0 \<rparr>"

definition isInstance :: "GridDescriptor \<Rightarrow> bool" where
  "isInstance gd = (instanceParentName gd \<noteq> [])"

subsection \<open>Reconnecting instances\<close>

text \<open>
  Modelled from the spec: \<open>setTree\<close> with the parent's \<open>baseTreePtr()\<close> shares the
  parent's tree by reference; \<open>baseTree().copy()\<close> is a deep copy, a new tree object with
  the same contents. (Grid.h and the tree classes are not among the sources.)
\<close>

definition setTree :: "addr \<Rightarrow> addr \<Rightarrow> state \<Rightarrow> state" where
  "setTree grid tree s = s\<lparr>grids := (grids s)(grid := (grids s grid)\<lparr>treePtr := tree\<rparr>)\<rparr>"

definition copyTree :: "addr \<Rightarrow> state \<Rightarrow> addr \<times> state" where
  "copyTree tree s =
     (next_addr s, s\<lparr>trees := (trees s)(next_addr s := trees s tree), next_addr := Suc (next_addr s)\<rparr>)"

text \<open>
  \<open>Archive::connectInstance\<close>. The map from names to grids is an association list; its
  values are grid pointers, possibly null. A null parent pointer would be dereferenced:
  the behaviour is undefined, which the model reports as an error of its own.
\<close>

type_synonym NamedGridMap = "(Name \<times> addr option) list"

definition connectInstance ::
  "Archive \<Rightarrow> GridDescriptor \<Rightarrow> NamedGridMap \<Rightarrow> state \<Rightarrow> error option \<times> state" where
  "connectInstance a gd gridmap s =
     (if \<not> isInstance gd \<or> gridmap = [] then (None, s)
      else case map_of gridmap (uniqueName gd) of
        None \<Rightarrow> (None, s)
      | Some None \<Rightarrow> (None, s)
      | Some (Some grid) \<Rightarrow>
          (case map_of gridmap (instanceParentName gd) of
             Some (Some parent) \<Rightarrow>
               if mEnableInstancing a
               then (None, setTree grid (treePtr (grids s parent)) s)
               else (let (t, s1) = copyTree (treePtr (grids s parent)) s
                     in (None, setTree grid t s1))
           | Some None \<Rightarrow> (Some (RuntimeError ''null pointer dereference''), s)
           | None \<Rightarrow>
               (Some (KeyError (''missing instance parent \"'' @ nameAsString (instanceParentName gd)
                        @ ''\" for grid '' @ nameAsString (uniqueName gd))), s)))"

subsection \<open>Collaborators and sequencing\<close>

text \<open>
  The readers and writers of a grid, of its tree and of a descriptor are virtual functions
  or belong to classes whose code is elsewhere. They are parameters of the model: each
  is a function on the whole state that may throw, and nothing is assumed about what it
  does to the state. \<open>populateDelayedLoadMetadata\<close> walks the leaves of the tree; it
  yields the populated metadata, or nothing when the grid's value type is not supported.
\<close>

type_synonym step = "state \<Rightarrow> error option \<times> state"
type_synonym CoordBBox = "(int \<times> int \<times> int) \<times> (int \<times> int \<times> int)"
type_synonym BBoxd = "byte list"


record collab =
  readMeta :: "addr \<Rightarrow> step"
  readTransform :: "addr \<Rightarrow> step"
  readTopology :: "addr \<Rightarrow> step"
  readBuffers :: "addr \<Rightarrow> CoordBBox option \<Rightarrow> step"
  worldToIndexNodeCentered :: "addr \<Rightarrow> state \<Rightarrow> BBoxd \<Rightarrow> CoordBBox"
  gd_writeHeader :: "GridDescriptor \<Rightarrow> step"
  gd_writeStreamPos :: "GridDescriptor \<Rightarrow> step"
  gd_seekToEnd :: "GridDescriptor \<Rightarrow> step"
  writeArchiveMeta :: "MetaMap \<Rightarrow> step"
  writeMeta :: "GridBase \<Rightarrow> step"
  writeTransform :: "addr \<Rightarrow> step"
  writeTopology :: "addr \<Rightarrow> step"
  writeBuffers :: "addr \<Rightarrow> step"
  populateDelayedLoadMetadata :: "GridBase \<Rightarrow> uint32_t \<Rightarrow> state \<Rightarrow> Metadata option"
  statsMetadata :: "GridBase \<Rightarrow> state \<Rightarrow> Metadata \<times> Metadata \<times> Metadata \<times> Metadata"
  compressionToString :: "uint32_t \<Rightarrow> string"

text \<open>
  A call of a collaborator is recorded when it returns or throws; whatever the
  collaborator does, the record of calls is the one before the call, extended.
\<close>

definition invoke :: "call \<Rightarrow> step \<Rightarrow> step" where
  "invoke c f s = (fst (f s), (snd (f s))\<lparr>calls := calls s @ [c]\<rparr>)"



text \<open>
  The same for a function that returns a value: \<open>attempt r k\<close> continues with \<open>k\<close> unless
  the step that gave \<open>r\<close> threw.
\<close>

definition attempt :: "error option \<times> state \<Rightarrow> (state \<Rightarrow> (error + 'a) \<times> state) \<Rightarrow> (error + 'a) \<times> state" where
  "attempt r k = (case r of (None, s) \<Rightarrow> k s | (Some e, s) \<Rightarrow> (Inl e, s))"

text \<open>
  An operation through a local \<open>StreamMetadata::Ptr\<close>. The local is never null in the
  source; were it null, the behaviour would be undefined, which the model reports as an
  error of its own.
\<close>

definition local_meta :: "addr \<Rightarrow> (StreamMetadata \<Rightarrow> StreamMetadata) \<Rightarrow> step" where
  "local_meta p f s =
     (case metas s p of
        Some m \<Rightarrow> (None, s\<lparr>metas := (metas s)(p \<mapsto> f m)\<rparr>)
      | None \<Rightarrow> (Some (RuntimeError ''null pointer dereference''), s))"

text \<open>
  The grid-level copy of the file-level stream metadata: a copy of the bound object, or
  a new one when none is bound.
\<close>

definition copy_StreamMetadata :: "build \<Rightarrow> state \<Rightarrow> StreamMetadata" where
  "copy_StreamMetadata b strm =
     (case getStreamMetadataPtr strm of
        None \<Rightarrow> new_StreamMetadata b
      | Some p \<Rightarrow> (case metas strm p of Some m \<Rightarrow> m | None \<Rightarrow> new_StreamMetadata b))"



subsection \<open>Reading a grid\<close>








subsection \<open>Writing a grid\<close>

definition META_FILE_BBOX_MIN :: Name where "META_FILE_BBOX_MIN = ''file_bbox_min''"
definition META_FILE_BBOX_MAX :: Name where "META_FILE_BBOX_MAX = ''file_bbox_max''"
definition META_FILE_MEM_BYTES :: Name where "META_FILE_MEM_BYTES = ''file_mem_bytes''"
definition META_FILE_VOXEL_COUNT :: Name where "META_FILE_VOXEL_COUNT = ''file_voxel_count''"

text \<open>
  \<open>GridBase::addStatsMetadata\<close>: the four entries are removed and inserted anew, so no
  insertion can be refused. The values come from the tree (\<open>statsMetadata\<close>).
\<close>

definition addStatsMetadata :: "collab \<Rightarrow> state \<Rightarrow> GridBase \<Rightarrow> GridBase" where
  "addStatsMetadata io s g =
     (let (bmin, bmax, mem, cnt) = statsMetadata io g s
      in g\<lparr>metaMap := (metaMap g)(META_FILE_BBOX_MIN \<mapsto> bmin, META_FILE_BBOX_MAX \<mapsto> bmax,
                                   META_FILE_MEM_BYTES \<mapsto> mem, META_FILE_VOXEL_COUNT \<mapsto> cnt)\<rparr>)"

definition new_DelayedLoadMetadata :: Metadata where
  "new_DelayedLoadMetadata = OtherMetadata ''__delayedload'' [] False"

text \<open>
  The shallow copy of the grid that \<open>writeGrid\<close> writes the metadata of: the delayed-load
  entry is inserted and populated, or dropped when population is refused; the statistics
  and the description of the compression are added when the stream asks for them.
\<close>

definition writeGrid_metadata :: "collab \<Rightarrow> Archive \<Rightarrow> addr \<Rightarrow> state \<Rightarrow> error + GridBase" where
  "writeGrid_metadata io a grid os =
     (let copyOfGrid = grids os grid
      in case insertMeta META_FILE_DELAYED_LOAD new_DelayedLoadMetadata (metaMap copyOfGrid) of
           Inl e \<Rightarrow> Inl e
         | Inr mm \<Rightarrow>
            (let mm1 = (case populateDelayedLoadMetadata io (grids os grid) (a_mCompression a) os of
                          None \<Rightarrow> removeMeta META_FILE_DELAYED_LOAD mm
                        | Some dl \<Rightarrow> mm(META_FILE_DELAYED_LOAD \<mapsto> dl));
                 copy1 = copyOfGrid\<lparr>metaMap := mm1\<rparr>
             in if getWriteGridStatsMetadata os
                then (let copy2 = addStatsMetadata io os copy1
                      in case insertMeta META_FILE_COMPRESSION
                                (StringMetadata (compressionToString io (getDataCompression os)))
                                (metaMap copy2) of
                           Inl e \<Rightarrow> Inl e
                         | Inr mm2 \<Rightarrow> Inr (copy2\<lparr>metaMap := mm2\<rparr>))
                else Inr copy1))"

text \<open>
  The statements of \<open>writeGrid\<close> after the local \<open>streamMetadata\<close> is bound. The
  descriptor is passed by reference: the value returned is the descriptor with the
  offsets recorded.
\<close>

definition writeGrid_body ::
  "collab \<Rightarrow> Archive \<Rightarrow> GridDescriptor \<Rightarrow> addr \<Rightarrow> bool \<Rightarrow> state
     \<Rightarrow> (error + GridDescriptor) \<times> state" where
  "writeGrid_body io a gd grid seekable os0 =
     attempt (invoke (WriteDescriptorHeader gd) (gd_writeHeader io gd) os0) (\<lambda>os1.
       let offsetPos = (if seekable then tellp os1 else 0) in
       attempt (invoke (WriteStreamPos gd) (gd_writeStreamPos io gd) os1) (\<lambda>os2.
         let gd1 = (if seekable then gd\<lparr>gridPos := of_nat (tellp os2)\<rparr> else gd);
             os3 = setGridCompression a (grids os2 grid) os2
         in case writeGrid_metadata io a grid os3 of
              Inl e \<Rightarrow> (Inl e, os3)
            | Inr copyOfGrid \<Rightarrow>
                attempt (invoke WriteMeta (writeMeta io copyOfGrid) os3) (\<lambda>os4.
                attempt (invoke WriteTransform (writeTransform io grid) os4) (\<lambda>os5.
                attempt (invoke WriteTopology (writeTopology io grid) os5) (\<lambda>os6.
                  let gd2 = (if seekable then gd1\<lparr>blockPos := of_nat (tellp os6)\<rparr> else gd1) in
                  attempt (invoke WriteBuffers (writeBuffers io grid) os6) (\<lambda>os7.
                    let gd3 = (if seekable then gd2\<lparr>endPos := of_nat (tellp os7)\<rparr> else gd2) in
                    if seekable
                    then attempt (invoke (WriteStreamPos gd3) (gd_writeStreamPos io gd3)
                                (seekp offsetPos os7)) (\<lambda>os8.
                         attempt (invoke (SeekToEnd gd3) (gd_seekToEnd io gd3) os8) (\<lambda>os9.
                           (Inr gd3, os9)))
                    else (Inr gd3, os7)))))))"

text \<open>
  \<open>Archive::writeGrid\<close>: the guard \<open>OnExit\<close> as in \<open>doReadGrid\<close>; the local
  \<open>streamMetadata\<close> holds a copy of the file-level object with the grid's half-float
  flag and metadata.
\<close>

definition writeGrid ::
  "build \<Rightarrow> collab \<Rightarrow> Archive \<Rightarrow> GridDescriptor \<Rightarrow> addr \<Rightarrow> bool \<Rightarrow> state
     \<Rightarrow> (error + GridDescriptor) \<times> state" where
  "writeGrid b io a gd grid seekable os =
     (let ptr = pword_metadata os;
          os0 = os\<lparr>calls := calls os @ [EnterWriteGrid gd]\<rparr>;
          streamMetadata = next_addr os0;
          m = (copy_StreamMetadata b os0)\<lparr>mHalfFloat := saveFloatAsHalf (grids os0 grid),
                                          mGridMetadata := metaMap (grids os0 grid)\<rparr>;
          os1 = setStreamMetadataPtr streamMetadata False
                  (os0\<lparr>metas := (metas os0)(streamMetadata \<mapsto> m),
                       next_addr := Suc streamMetadata\<rparr>);
          r = writeGrid_body io a gd grid seekable os1
      in (fst r, (snd r)\<lparr>pword_metadata := ptr\<rparr>))"

text \<open>\<open>Archive::writeGridInstance\<close>: descriptor, offsets, compression, metadata, transform.\<close>

definition writeGridInstance ::
  "collab \<Rightarrow> Archive \<Rightarrow> GridDescriptor \<Rightarrow> addr \<Rightarrow> bool \<Rightarrow> state
     \<Rightarrow> (error + GridDescriptor) \<times> state" where
  "writeGridInstance io a gd grid seekable os =
     (let os0 = os\<lparr>calls := calls os @ [EnterWriteGridInstance gd]\<rparr> in
      attempt (invoke (WriteDescriptorHeader gd) (gd_writeHeader io gd) os0) (\<lambda>os1.
        let offsetPos = (if seekable then tellp os1 else 0) in
        attempt (invoke (WriteStreamPos gd) (gd_writeStreamPos io gd) os1) (\<lambda>os2.
          let gd1 = (if seekable then gd\<lparr>gridPos := of_nat (tellp os2)\<rparr> else gd);
              os3 = setGridCompression a (grids os2 grid) os2
          in attempt (invoke WriteMeta (writeMeta io (grids os3 grid)) os3) (\<lambda>os4.
             attempt (invoke WriteTransform (writeTransform io grid) os4) (\<lambda>os5.
               let gd2 = (if seekable then gd1\<lparr>endPos := of_nat (tellp os5)\<rparr> else gd1) in
               if seekable
               then attempt (invoke (WriteStreamPos gd2) (gd_writeStreamPos io gd2)
                           (seekp offsetPos os5)) (\<lambda>os6.
                    attempt (invoke (SeekToEnd gd2) (gd_seekToEnd io gd2) os6) (\<lambda>os7.
                      (Inr gd2, os7)))
               else (Inr gd2, os5))))))"

subsection \<open>Writing an archive\<close>

text \<open>
  The histogram of grid names over the non-null grids. \<open>nameCount[name]\<close> is the count
  stored, or zero for a name that was never counted.
\<close>

fun nameHistogram :: "state \<Rightarrow> addr option list \<Rightarrow> (Name \<rightharpoonup> int) \<Rightarrow> (Name \<rightharpoonup> int)" where
  "nameHistogram os [] nameCount = nameCount"
| "nameHistogram os (None # gs) nameCount = nameHistogram os gs nameCount"
| "nameHistogram os (Some grid # gs) nameCount =
     (let name = getName (grids os grid)
      in nameHistogram os gs
           (case nameCount name of
              Some c \<Rightarrow> nameCount(name \<mapsto> c + 1)
            | None \<Rightarrow> nameCount(name \<mapsto> 1)))"

definition nameCount_at :: "(Name \<rightharpoonup> int) \<Rightarrow> Name \<Rightarrow> int" where
  "nameCount_at nameCount name = (case nameCount name of Some c \<Rightarrow> c | None \<Rightarrow> 0)"

text \<open>
  \<open>for (int n = 1; uniqueNames.find(name) != uniqueNames.end(); ++n)
     name = GridDescriptor::addSuffix(grid->getName(), n);\<close>
  The set of names is kept as the list of its elements. The counter is not bounded here:
  \<open>int\<close> would overflow only after \<open>2^31\<close> names were in use.
\<close>

function uniquify :: "Name list \<Rightarrow> Name \<Rightarrow> nat \<Rightarrow> Name \<Rightarrow> Name" where
  "uniquify uniqueNames base n name =
     (if name \<in> set uniqueNames
      then uniquify uniqueNames base (Suc n) (addSuffix base n)
      else name)"
  by pat_completeness auto

lemma of_digits_snoc: "of_digits (s @ [c]) = 10 * of_digits s + (of_char c - 48)"
  by (simp add: of_digits_def)

lemma of_digits_to_string: "of_digits (to_string n) = n"
proof (induction n rule: to_string.induct)
  case (1 n)
  show ?case
  proof (cases "n < 10")
    case True
    then show ?thesis
      by (subst to_string.simps) (simp add: of_digits_def)
  next
    case False
    then have "of_digits (to_string n) =
        10 * of_digits (to_string (n div 10)) + (of_char (char_of (48 + n mod 10) :: char) - 48)"
      by (subst to_string.simps) (simp add: of_digits_snoc)
    also have "\<dots> = 10 * (n div 10) + n mod 10"
      using 1[OF False] by simp
    finally show ?thesis by simp
  qed
qed

lemma inj_addSuffix: "inj (addSuffix base)"
proof (rule injI)
  fix x y assume "addSuffix base x = addSuffix base y"
  then have "to_string x = to_string y" by (simp add: addSuffix_def)
  then have "of_digits (to_string x) = of_digits (to_string y)" by simp
  then show "x = y" by (simp add: of_digits_to_string)
qed

lemma finite_taken: "finite {k. addSuffix base k \<in> set names}"
proof -
  have "finite (addSuffix base -` set names)"
    by (rule finite_vimageI[OF finite_set inj_addSuffix])
  then show ?thesis by (simp add: vimage_def)
qed

termination uniquify
proof (relation "measure (\<lambda>(names, base, n, name).
          2 * card {k. n \<le> k \<and> addSuffix base k \<in> set names}
          + (if name \<in> set names then 1 else 0))")
  show "wf (measure (\<lambda>(names, base, n, name).
          2 * card {k. n \<le> k \<and> addSuffix base k \<in> set names}
          + (if name \<in> set names then 1 else 0)))" by simp
next
  fix uniqueNames :: "Name list" and base :: Name and n :: nat and name :: Name
  assume inn: "name \<in> set uniqueNames"
  let ?A = "{k. n \<le> k \<and> addSuffix base k \<in> set uniqueNames}"
  let ?B = "{k. Suc n \<le> k \<and> addSuffix base k \<in> set uniqueNames}"
  have finA: "finite ?A"
    by (rule finite_subset[OF _ finite_taken[of base uniqueNames]]) auto
  have sub: "?B \<subseteq> ?A" by auto
  have le: "card ?B \<le> card ?A" by (rule card_mono[OF finA sub])
  show "((uniqueNames, base, Suc n, addSuffix base n), (uniqueNames, base, n, name))
        \<in> measure (\<lambda>(names, base, n, name).
          2 * card {k. n \<le> k \<and> addSuffix base k \<in> set names}
          + (if name \<in> set names then 1 else 0))"
  proof (cases "addSuffix base n \<in> set uniqueNames")
    case True
    then have "n \<in> ?A" "n \<notin> ?B" by auto
    then have "?B \<subset> ?A" using sub by blast
    then have "card ?B < card ?A" by (rule psubset_card_mono[OF finA])
    then show ?thesis using inn True by simp
  next
    case False
    then show ?thesis using inn le by simp
  qed
qed

declare uniquify.simps [simp del]

text \<open>
  The descriptor of a grid: the name made unique, the type and the half-float flag.
\<close>

definition uniqueNameFor :: "(Name \<rightharpoonup> int) \<Rightarrow> Name list \<Rightarrow> GridBase \<Rightarrow> Name" where
  "uniqueNameFor nameCount uniqueNames g =
     (let name = getName g;
          name = (if name = [] \<or> nameCount_at nameCount name > 1 then addSuffix name 0 else name)
      in uniquify uniqueNames (getName g) 1 name)"

text \<open>
  The body of the loop of \<open>Archive::write\<close> for a non-null grid: the state of the loop
  is the map from tree pointers to descriptors, the names in use and the stream.
\<close>

type_synonym TreeMap = "addr \<rightharpoonup> GridDescriptor"

definition write_grid ::
  "build \<Rightarrow> collab \<Rightarrow> Archive \<Rightarrow> (Name \<rightharpoonup> int) \<Rightarrow> bool \<Rightarrow> addr
     \<Rightarrow> TreeMap \<times> Name list \<times> state \<Rightarrow> error option \<times> TreeMap \<times> Name list \<times> state" where
  "write_grid b io a nameCount seekable grid loop =
     (case loop of (treeMap, uniqueNames, os) \<Rightarrow>
      let g = grids os grid;
          name = uniqueNameFor nameCount uniqueNames g;
          uniqueNames1 = name # uniqueNames;
          gd = new_GridDescriptor name (gridType g) (saveFloatAsHalf g);
          mapIter = treeMap (treePtr g);
          isInstance = (case mapIter of
                          None \<Rightarrow> False
                        | Some parent \<Rightarrow> gd_saveFloatAsHalf parent = gd_saveFloatAsHalf gd)
      in case mapIter of
           Some parent \<Rightarrow>
             if mEnableInstancing a \<and> isInstance
             then (case writeGridInstance io a (gd\<lparr>instanceParentName := uniqueName parent\<rparr>)
                          grid seekable os of
                     (Inl e, os1) \<Rightarrow> (Some e, treeMap, uniqueNames1, os1)
                   | (Inr gd1, os1) \<Rightarrow> (None, treeMap, uniqueNames1, os1))
             else (case writeGrid b io a gd grid seekable os of
                     (Inl e, os1) \<Rightarrow> (Some e, treeMap, uniqueNames1, os1)
                   | (Inr gd1, os1) \<Rightarrow> (None, treeMap(treePtr g \<mapsto> gd1), uniqueNames1, os1))
         | None \<Rightarrow>
             (case writeGrid b io a gd grid seekable os of
                (Inl e, os1) \<Rightarrow> (Some e, treeMap, uniqueNames1, os1)
              | (Inr gd1, os1) \<Rightarrow> (None, treeMap(treePtr g \<mapsto> gd1), uniqueNames1, os1)))"

text \<open>
  The loop over the grids; after each element, null or not, the archive's compression
  flags are set on the stream again.
\<close>

fun write_grids ::
  "build \<Rightarrow> collab \<Rightarrow> Archive \<Rightarrow> (Name \<rightharpoonup> int) \<Rightarrow> bool \<Rightarrow> addr option list
     \<Rightarrow> TreeMap \<times> Name list \<times> state \<Rightarrow> error option \<times> TreeMap \<times> Name list \<times> state" where
  "write_grids b io a nameCount seekable [] loop = (None, loop)"
| "write_grids b io a nameCount seekable (None # gs) (treeMap, uniqueNames, os) =
     write_grids b io a nameCount seekable gs
       (treeMap, uniqueNames, setDataCompression (a_mCompression a) os)"
| "write_grids b io a nameCount seekable (Some grid # gs) loop =
     (case write_grid b io a nameCount seekable grid loop of
        (Some e, loop1) \<Rightarrow> (Some e, loop1)
      | (None, treeMap, uniqueNames, os) \<Rightarrow>
          write_grids b io a nameCount seekable gs
            (treeMap, uniqueNames, setDataCompression (a_mCompression a) os))"

text \<open>
  \<open>Archive::write\<close>. When no stream metadata is bound, a new object is bound through
  the local pointer; the header, the archive's metadata and the number of non-null grids
  are written, then the grids.
\<close>

definition Archive_write ::
  "build \<Rightarrow> collab \<Rightarrow> (string \<Rightarrow> byte list) \<Rightarrow> uint32_t list \<Rightarrow> Archive \<Rightarrow> addr option list
     \<Rightarrow> bool \<Rightarrow> MetaMap \<Rightarrow> state \<Rightarrow> error option \<times> Archive \<times> state" where
  "Archive_write b io uninit entropy a gridPtrs seekable metadata os =
     (let os1 = (case getStreamMetadataPtr os of
                   Some p \<Rightarrow> os
                 | None \<Rightarrow>
                     setStreamMetadataPtr (next_addr os) False
                       (os\<lparr>metas := (metas os)(next_addr os \<mapsto> new_StreamMetadata b),
                           next_addr := Suc (next_addr os)\<rparr>));
          os2 = setWriteGridStatsMetadata (mEnableGridStats a)
                  (setDataCompression (a_mCompression a) os1);
          (a1, os3) = writeHeader b uninit entropy seekable a os2
      in case invoke WriteArchiveMeta (writeArchiveMeta io metadata) os3 of
           (Some e, os4) \<Rightarrow> (Some e, a1, os4)
         | (None, os4) \<Rightarrow>
             (let gridCount = length (filter (\<lambda>g. g \<noteq> None) gridPtrs);
                  os5 = ostream_write (le_bytes 4 (of_nat gridCount :: uint32_t)) os4;
                  nameCount = nameHistogram os5 gridPtrs Map.empty
              in case write_grids b io a nameCount seekable gridPtrs (Map.empty, [], os5) of
                   (e, treeMap, uniqueNames, os6) \<Rightarrow> (e, a1, os6)))"

subsection \<open>Auxiliary definitions for the statements\<close>











text \<open>
  The flags \<open>setGridCompression\<close> computes, and the archive and the stream before
  step 5 of \<open>readHeader\<close>.
\<close>

definition gridCompressionFlags :: "Archive \<Rightarrow> GridBase \<Rightarrow> uint32_t" where
  "gridCompressionFlags a grid =
     (if GridBase_getGridClass grid = GRID_LEVEL_SET \<or> GridBase_getGridClass grid = GRID_FOG_VOLUME
      then a_mCompression a AND NOT COMPRESS_ZIP else a_mCompression a)"

definition readHeader_prefix ::
  "build \<Rightarrow> (string \<Rightarrow> byte list) \<Rightarrow> Archive \<Rightarrow> state \<Rightarrow> Archive \<times> state" where
  "readHeader_prefix b uninit a strm =
     (let (magic, strm1) = istream_read 8 (uninit ''magic'') strm;
          (a2, strm2) = readHeader_fileVersion b uninit a strm1;
          (a3, strm3) = readHeader_libraryVersion uninit a2 strm2
      in readHeader_gridOffsets uninit a3 strm3)"

section \<open>Concrete inputs\<close>

text \<open>
  The constants of the library this file belongs to (file format 224), a stream on
  which nothing has been set, read or written, and stack contents that are empty.
\<close>

definition build_224 :: build where
  "build_224 =
     \<lparr> OPENVDB_MAGIC = 0x56444220,
       OPENVDB_FILE_VERSION = 224,
       OPENVDB_LIBRARY_MAJOR_VERSION = 12,
       OPENVDB_LIBRARY_MINOR_VERSION = 0,
       OPENVDB_FILE_VERSION_GRID_INSTANCING = 216,
       OPENVDB_FILE_VERSION_BOOST_UUID = 218,
       OPENVDB_FILE_VERSION_NO_GRIDMAP = 219,
       OPENVDB_FILE_VERSION_SELECTIVE_COMPRESSION = 220,
       OPENVDB_FILE_VERSION_NODE_MASK_COMPRESSION = 222,
       OPENVDB_FILE_VERSION_BLOSC_COMPRESSION = 223,
       OPENVDB_USE_BLOSC = True,
       OPENVDB_USE_ZLIB = True,
       delayedLoadRegistered = True \<rparr>"

definition empty_grid :: GridBase where
  "empty_grid = \<lparr> metaMap = Map.empty, gridType = [], treePtr = 0 \<rparr>"

definition init_state :: state where
  "init_state =
     \<lparr> iword_fileVersion = 0, iword_libraryMajorVersion = 0, iword_libraryMinorVersion = 0,
       iword_dataCompression = 0, iword_writeGridStatsMetadata = 0, iword_gridClass = 0,
       iword_halfFloat = 0,
       pword_gridBackground = None, pword_mappedFile = None, pword_metadata = None,
       inbuf = [], failbit = False, outbuf = [], pptr = 0, calls = [],
       metas = Map.empty, grids = (\<lambda>_. empty_grid), trees = (\<lambda>_. []), next_addr = 1 \<rparr>"

definition no_junk :: "string \<Rightarrow> byte list" where
  "no_junk name = []"

text \<open>
  A header of file format 220: magic, version, library version 1.0, the grid-offsets
  flag, the byte \<open>isCompressed = 0\<close>, and a UUID of 36 letters.
\<close>

definition header_220 :: "byte list" where
  "header_220 =
     [0x20, 0x42, 0x44, 0x56, 0, 0, 0, 0] @ [220, 0, 0, 0] @ [1, 0, 0, 0] @ [0, 0, 0, 0]
     @ [1] @ [0] @ replicate 36 65"

definition stream_220 :: state where
  "stream_220 = init_state\<lparr>inbuf := header_220\<rparr>"

text \<open>A stream whose grid-class slot holds \<open>2^32 + 1\<close>.\<close>

definition stream_big_class :: state where
  "stream_big_class = init_state\<lparr>iword_gridClass := 4294967297\<rparr>"









text \<open>A stream whose grid-class slot holds 7, a value no grid class has.\<close>

definition stream_class_7 :: state where
  "stream_class_7 = init_state\<lparr>iword_gridClass := 7\<rparr>"

text \<open>A stream that starts with eight zero bytes where the magic number should be.\<close>

definition stream_zero_magic :: state where
  "stream_zero_magic = init_state\<lparr>inbuf := [0, 0, 0, 0, 0, 0, 0, 0, 224, 0, 0, 0]\<rparr>"

text \<open>
  A fog volume, an archive that compresses with \<open>ZIP\<close> and the active mask, and an
  archive with instancing disabled.
\<close>

definition fog_grid :: GridBase where
  "fog_grid = \<lparr> metaMap = [META_GRID_CLASS \<mapsto> StringMetadata ''fog volume''],
                gridType = ''Tree_float_5_4_3'', treePtr = 1 \<rparr>"

definition zip_archive :: Archive where
  "zip_archive = (new_Archive build_224)\<lparr>a_mCompression := COMPRESS_ZIP OR COMPRESS_ACTIVE_MASK\<rparr>"

definition copying_archive :: Archive where
  "copying_archive = (new_Archive build_224)\<lparr>mEnableInstancing := False\<rparr>"

text \<open>
  Two grids read from a file, \<open>density\<close> at address 1 with the tree at address 5 and
  \<open>density_copy\<close> at address 2 with the tree at address 6, and the descriptor that
  marks the second an instance of the first.
\<close>

definition two_grids :: state where
  "two_grids = init_state
     \<lparr> grids := (\<lambda>_. empty_grid)(1 := empty_grid\<lparr>treePtr := 5\<rparr>, 2 := empty_grid\<lparr>treePtr := 6\<rparr>),
       trees := (\<lambda>_. [])(5 := [1, 2, 3]),
       next_addr := 7 \<rparr>"

definition two_grids_map :: NamedGridMap where
  "two_grids_map = [(''density'', Some 1), (''density_copy'', Some 2)]"

definition instance_descriptor :: GridDescriptor where
  "instance_descriptor =
     (new_GridDescriptor ''density_copy'' ''Tree_float_5_4_3'' False)
       \<lparr>instanceParentName := ''density''\<rparr>"

section \<open>Grid-class strings\<close>

text \<open>
  C9. \<open>gridClassToString\<close> maps \<open>UNKNOWN, LEVEL_SET, FOG_VOLUME, STAGGERED\<close> to
  "unknown", "level set", "fog volume", "staggered", and \<open>stringToGridClass\<close> maps the
  string of every grid class back to that class.
\<close>

theorem gridClass_string_roundtrip:
  "gridClassToString GRID_UNKNOWN = ''unknown'' \<and>
   gridClassToString GRID_LEVEL_SET = ''level set'' \<and>
   gridClassToString GRID_FOG_VOLUME = ''fog volume'' \<and>
   gridClassToString GRID_STAGGERED = ''staggered'' \<and>
   stringToGridClass string_trim string_to_lower (gridClassToString c) = c"
  by (cases c)
     (simp_all add: stringToGridClass_def string_trim_def string_to_lower_def
        to_lower_char_def is_space_def)

section \<open>Per-grid compression flags\<close>

lemma le_word_le_bytes:
  "(le_word (le_bytes n w) :: 'a::len word) = take_bit (8 * n) (w :: 'a word)"
proof (induction n arbitrary: w)
  case 0
  then show ?case by simp
next
  case (Suc n)
  show ?case
    apply (simp add: Suc)
    apply (rule bit_word_eqI)
    apply (auto simp add: bit_simps not_less)
    done
qed

lemma le_word_le_bytes4: "le_word (le_bytes 4 c) = (c :: 32 word)"
  by (simp add: le_word_le_bytes take_bit_word_eq_self)

lemma length_le_bytes: "length (le_bytes n w) = n"
  by (induction n arbitrary: w) simp_all

lemma written_bytes:
  "take (length bs) (drop (pptr s) (outbuf (ostream_write bs s))) = bs \<and>
   pptr (ostream_write bs s) = pptr s + length bs"
  by (simp add: ostream_write_def)

lemma with_meta_frame:
  "iword_fileVersion (with_meta f s) = iword_fileVersion s"
  "iword_libraryMajorVersion (with_meta f s) = iword_libraryMajorVersion s"
  "iword_libraryMinorVersion (with_meta f s) = iword_libraryMinorVersion s"
  "iword_dataCompression (with_meta f s) = iword_dataCompression s"
  "iword_writeGridStatsMetadata (with_meta f s) = iword_writeGridStatsMetadata s"
  "iword_gridClass (with_meta f s) = iword_gridClass s"
  "iword_halfFloat (with_meta f s) = iword_halfFloat s"
  "pword_metadata (with_meta f s) = pword_metadata s"
  "inbuf (with_meta f s) = inbuf s"
  "failbit (with_meta f s) = failbit s"
  "outbuf (with_meta f s) = outbuf s"
  "pptr (with_meta f s) = pptr s"
  "calls (with_meta f s) = calls s"
  "grids (with_meta f s) = grids s"
  "trees (with_meta f s) = trees s"
  "next_addr (with_meta f s) = next_addr s"
  by (simp_all add: with_meta_def split: option.splits)

lemma with_meta_bound:
  "getStreamMetadataPtr s = Some p \<Longrightarrow>
     \<exists>m. metas s p = Some m \<and> metas (with_meta f s) p = Some (f m)"
  by (auto simp add: with_meta_def getStreamMetadataPtr_def split: option.splits)

lemma getStreamMetadataPtr_iword:
  "getStreamMetadataPtr (s\<lparr>iword_dataCompression := x\<rparr>) = getStreamMetadataPtr s"
  by (simp add: getStreamMetadataPtr_def split: option.splits)

lemma ucast_ucast_32_64: "(ucast (ucast (c :: 32 word) :: 64 word) :: 32 word) = c"
  by (rule bit_word_eqI) (simp add: bit_simps)

lemma setGridCompression_eq:
  "setGridCompression a grid os =
     ostream_write (le_bytes 4 (gridCompressionFlags a grid))
       (setDataCompression (gridCompressionFlags a grid) os)"
  by (cases "GridBase_getGridClass grid")
     (simp_all add: setGridCompression_def gridCompressionFlags_def Let_def)

text \<open>
  C3. \<open>Archive::setGridCompression\<close> writes the archive's compression flags with the
  \<open>ZIP\<close> bit cleared when the grid's class is \<open>LEVEL_SET\<close> or \<open>FOG_VOLUME\<close>, and the
  archive's flags unchanged when the class is \<open>STAGGERED\<close> or \<open>UNKNOWN\<close>. The four
  bytes are written at the put position, which advances by four; the 32-bit value they
  encode is the stream's data-compression state afterwards, in the compression slot and in
  the stream metadata bound to the stream, if any.
\<close>

theorem setGridCompression_flags:
  "(GridBase_getGridClass grid = GRID_LEVEL_SET \<or> GridBase_getGridClass grid = GRID_FOG_VOLUME
      \<longrightarrow> take 4 (drop (pptr os) (outbuf (setGridCompression a grid os)))
            = le_bytes 4 (a_mCompression a AND NOT COMPRESS_ZIP)) \<and>
   (GridBase_getGridClass grid = GRID_STAGGERED \<or> GridBase_getGridClass grid = GRID_UNKNOWN
      \<longrightarrow> take 4 (drop (pptr os) (outbuf (setGridCompression a grid os)))
            = le_bytes 4 (a_mCompression a)) \<and>
   pptr (setGridCompression a grid os) = pptr os + 4 \<and>
   getDataCompression (setGridCompression a grid os)
     = le_word (take 4 (drop (pptr os) (outbuf (setGridCompression a grid os)))) \<and>
   (\<forall>p. getStreamMetadataPtr os = Some p \<longrightarrow>
      (\<exists>m. metas (setGridCompression a grid os) p = Some m \<and>
           mCompression m = le_word (take 4 (drop (pptr os) (outbuf (setGridCompression a grid os))))))"
proof -
  let ?c = "gridCompressionFlags a grid"
  let ?s1 = "setDataCompression ?c os"
  have p: "pptr ?s1 = pptr os"
    by (simp add: setDataCompression_def with_meta_frame)
  have w: "take 4 (drop (pptr os) (outbuf (setGridCompression a grid os))) = le_bytes 4 ?c"
    using written_bytes[of "le_bytes 4 ?c" ?s1]
    by (simp add: setGridCompression_eq p length_le_bytes)
  have pp: "pptr (setGridCompression a grid os) = pptr os + 4"
    using written_bytes[of "le_bytes 4 ?c" ?s1]
    by (simp add: setGridCompression_eq p length_le_bytes)
  have d: "getDataCompression (setGridCompression a grid os) = ?c"
    by (simp add: setGridCompression_eq getDataCompression_def ostream_write_def
        setDataCompression_def with_meta_frame ucast_ucast_32_64)
  have m: "\<exists>m. metas (setGridCompression a grid os) p = Some m \<and> mCompression m = ?c"
    if "getStreamMetadataPtr os = Some p" for p
  proof -
    from that have "getStreamMetadataPtr (os\<lparr>iword_dataCompression := ucast ?c\<rparr>) = Some p"
      by (simp add: getStreamMetadataPtr_iword)
    from with_meta_bound[OF this, of "\<lambda>m. m\<lparr>mCompression := ?c\<rparr>"]
    show ?thesis
      by (auto simp add: setGridCompression_eq setDataCompression_def ostream_write_def)
  qed
  show ?thesis
    using w pp d m
    by (auto simp add: le_word_le_bytes4 gridCompressionFlags_def)
qed

lemma fog_grid_class: "GridBase_getGridClass fog_grid = GRID_FOG_VOLUME"
  by (simp add: fog_grid_def GridBase_getGridClass_def getStringMetadata_def
      stringToGridClass_def string_trim_def string_to_lower_def to_lower_char_def is_space_def)

theorem setGridCompression_flags_witness:
  "GridBase_getGridClass fog_grid = GRID_FOG_VOLUME \<and>
   take 4 (drop (pptr init_state) (outbuf (setGridCompression zip_archive fog_grid init_state)))
     = [2, 0, 0, 0] \<and>
   getDataCompression (setGridCompression zip_archive fog_grid init_state) = COMPRESS_ACTIVE_MASK"
proof -
  have c: "a_mCompression zip_archive AND NOT COMPRESS_ZIP = 2"
    by code_simp
  have b: "le_bytes 4 (2 :: uint32_t) = [2, 0, 0, 0]"
    by code_simp
  have l: "(le_word [2, 0, 0, 0 :: byte] :: uint32_t) = 2"
    by code_simp
  have "take 4 (drop (pptr init_state) (outbuf (setGridCompression zip_archive fog_grid init_state)))
          = le_bytes 4 (a_mCompression zip_archive AND NOT COMPRESS_ZIP) \<and>
        getDataCompression (setGridCompression zip_archive fog_grid init_state)
          = le_word (take 4 (drop (pptr init_state)
              (outbuf (setGridCompression zip_archive fog_grid init_state))))"
    using setGridCompression_flags[of fog_grid init_state zip_archive] fog_grid_class
    by blast
  then show ?thesis
    using fog_grid_class by (simp add: c b l COMPRESS_ACTIVE_MASK_def)
qed

section \<open>The header\<close>

lemma fileVersion_step_frame:
  "readHeader_fileVersion b u a s = (a', s') \<Longrightarrow> mUuid a' = mUuid a"
  by (auto simp: readHeader_fileVersion_def Let_def split: prod.splits if_splits)

lemma libraryVersion_step_frame:
  "readHeader_libraryVersion u a s = (a', s') \<Longrightarrow>
     mUuid a' = mUuid a \<and> a_mFileVersion a' = a_mFileVersion a"
  by (auto simp: readHeader_libraryVersion_def Let_def split: prod.splits if_splits)

lemma gridOffsets_step_frame:
  "readHeader_gridOffsets u a s = (a', s') \<Longrightarrow>
     mUuid a' = mUuid a \<and> a_mFileVersion a' = a_mFileVersion a"
  by (auto simp: readHeader_gridOffsets_def Let_def split: prod.splits if_splits)

lemma compression_step_frame:
  "readHeader_compression b u a s = (a', s') \<Longrightarrow>
     mUuid a' = mUuid a \<and> a_mFileVersion a' = a_mFileVersion a"
  by (auto simp: readHeader_compression_def Let_def split: prod.splits if_splits)

lemma uuid_step_frame:
  "readHeader_uuid b u a s = (a', s') \<Longrightarrow>
     a_mCompression a' = a_mCompression a \<and> a_mFileVersion a' = a_mFileVersion a"
  by (auto simp: readHeader_uuid_def Let_def split: prod.splits if_splits)

lemma compression_step_flags:
  assumes "readHeader_compression b u a s = (a', s')"
  shows "a_mCompression a' =
     (if OPENVDB_FILE_VERSION_SELECTIVE_COMPRESSION b \<le> a_mFileVersion a \<and>
         a_mFileVersion a < OPENVDB_FILE_VERSION_NODE_MASK_COMPRESSION b
      then (if (le_word (fst (istream_read 1 (u ''isCompressed'') s)) :: byte) \<noteq> 0
            then COMPRESS_ZIP else COMPRESS_NONE)
      else if a_mFileVersion a < OPENVDB_FILE_VERSION_BLOSC_COMPRESSION b
      then COMPRESS_ZIP OR COMPRESS_ACTIVE_MASK
      else DEFAULT_COMPRESSION_FLAGS b)"
  using assms
  by (auto simp: readHeader_compression_def Let_def split: prod.splits if_splits)

lemma readHeader_success_steps:
  assumes "readHeader b u a s = (Inr r, a', s')"
  shows "\<exists>a4 s4 a5 s5.
    readHeader_prefix b u a s = (a4, s4) \<and>
    readHeader_compression b u a4 s4 = (a5, s5) \<and>
    readHeader_uuid b u a5 s5 = (a', s') \<and>
    mUuid a5 = mUuid a \<and>
    r = (if mUuid a5 = [] \<or> mUuid a' = [] then True else mUuid a5 \<noteq> mUuid a')"
proof -
  obtain m s1 where r1: "istream_read 8 (u ''magic'') s = (m, s1)" by force
  obtain a2 s2 where r2: "readHeader_fileVersion b u a s1 = (a2, s2)" by force
  obtain a3 s3 where r3: "readHeader_libraryVersion u a2 s2 = (a3, s3)" by force
  obtain a4 s4 where r4: "readHeader_gridOffsets u a3 s3 = (a4, s4)" by force
  obtain a5 s5 where r5: "readHeader_compression b u a4 s4 = (a5, s5)" by force
  obtain a6 s6 where r6: "readHeader_uuid b u a5 s5 = (a6, s6)" by force
  have magic: "(le_word m :: int64_t) = OPENVDB_MAGIC b"
    using assms by (auto simp: readHeader_def r1 split: if_splits)
  define R where "R = (if mUuid a5 = [] \<or> mUuid a6 = [] then True else mUuid a5 \<noteq> mUuid a6)"
  have "readHeader b u a s = (Inr R, a6, s6)"
    by (simp add: readHeader_def r1 r2 r3 r4 r5 r6 magic Let_def R_def)
  with assms have "r = R" "a6 = a'" "s6 = s'"
    by simp_all
  then have res:
    "r = (if mUuid a5 = [] \<or> mUuid a' = [] then True else mUuid a5 \<noteq> mUuid a')"
    "a6 = a'" "s6 = s'"
    by (simp_all add: R_def)
  have pre: "readHeader_prefix b u a s = (a4, s4)"
    by (simp add: readHeader_prefix_def r1 r2 r3 r4)
  have uu: "mUuid a5 = mUuid a"
    using fileVersion_step_frame[OF r2] libraryVersion_step_frame[OF r3]
      gridOffsets_step_frame[OF r4] compression_step_frame[OF r5] by simp
  show ?thesis using pre r5 r6 res uu by blast
qed

lemma c_str_replicate:
  "x \<noteq> 0 \<Longrightarrow> c_str (replicate n x @ [0]) = replicate n (char_of (unat x))"
  by (induction n) (simp_all add: c_str_def)

lemma char_of_65: "char_of (65 :: nat) = CHR ''A''"
  by code_simp

lemma readHeader_stream_220:
  "fst (readHeader build_224 no_junk (new_Archive build_224) stream_220) = Inr True"
  "a_mFileVersion (fst (snd (readHeader build_224 no_junk (new_Archive build_224) stream_220))) = 220"
  "a_mCompression (fst (snd (readHeader build_224 no_junk (new_Archive build_224) stream_220)))
     = COMPRESS_NONE"
  "mUuid (fst (snd (readHeader build_224 no_junk (new_Archive build_224) stream_220)))
     = replicate 36 (CHR ''A'')"
  by (simp_all add: readHeader_def readHeader_fileVersion_def readHeader_libraryVersion_def
     readHeader_gridOffsets_def readHeader_compression_def readHeader_uuid_def istream_read_def
     stream_220_def header_220_def init_state_def build_224_def new_Archive_def no_junk_def
     Let_def c_str_replicate char_of_65 DEFAULT_COMPRESSION_FLAGS_def
     COMPRESS_NONE_def COMPRESS_ZIP_def COMPRESS_ACTIVE_MASK_def COMPRESS_BLOSC_def)

text \<open>
  C4, as stated, asks that after a successful \<open>readHeader\<close> the flags are
  \<open>{ZIP, ACTIVE_MASK}\<close> whenever the file version is below the version that introduced
  Blosc. It fails for a file of format 220 whose byte \<open>isCompressed\<close> is zero: 220 is
  below 223, and the flags are \<open>NONE\<close>.
\<close>

theorem readHeader_compression_counterexample:
  "fst (readHeader build_224 no_junk (new_Archive build_224) stream_220) = Inr True \<and>
   a_mFileVersion (fst (snd (readHeader build_224 no_junk (new_Archive build_224) stream_220)))
     < OPENVDB_FILE_VERSION_BLOSC_COMPRESSION build_224 \<and>
   a_mCompression (fst (snd (readHeader build_224 no_junk (new_Archive build_224) stream_220)))
     \<noteq> (COMPRESS_ZIP OR COMPRESS_ACTIVE_MASK)"
  using readHeader_stream_220
  by (simp add: build_224_def COMPRESS_NONE_def COMPRESS_ZIP_def COMPRESS_ACTIVE_MASK_def)

text \<open>
  C4, amended. After \<open>readHeader\<close> succeeds, the archive's compression flags are
  determined by the file version it read, the range of selective compression taking
  precedence: if the version lies in [selective-compression, node-mask-compression), one
  byte \<open>isCompressed\<close> is read from the stream and the flags are \<open>{ZIP}\<close> when it is
  nonzero and \<open>{NONE}\<close> when it is zero; otherwise, if the version is below the
  Blosc-introduction version, the flags are \<open>{ZIP, ACTIVE_MASK}\<close>; otherwise they are
  the library defaults.
\<close>

theorem readHeader_compression_by_version:
  assumes "fst (readHeader b u a s) = Inr r"
  shows
   "(OPENVDB_FILE_VERSION_SELECTIVE_COMPRESSION b \<le> a_mFileVersion (fst (snd (readHeader b u a s))) \<and>
     a_mFileVersion (fst (snd (readHeader b u a s))) < OPENVDB_FILE_VERSION_NODE_MASK_COMPRESSION b \<longrightarrow>
       a_mCompression (fst (snd (readHeader b u a s))) =
         (if (le_word (fst (istream_read 1 (u ''isCompressed'') (snd (readHeader_prefix b u a s)))) :: byte) \<noteq> 0
          then COMPRESS_ZIP else COMPRESS_NONE)) \<and>
    (\<not> (OPENVDB_FILE_VERSION_SELECTIVE_COMPRESSION b \<le> a_mFileVersion (fst (snd (readHeader b u a s))) \<and>
        a_mFileVersion (fst (snd (readHeader b u a s))) < OPENVDB_FILE_VERSION_NODE_MASK_COMPRESSION b) \<and>
     a_mFileVersion (fst (snd (readHeader b u a s))) < OPENVDB_FILE_VERSION_BLOSC_COMPRESSION b \<longrightarrow>
       a_mCompression (fst (snd (readHeader b u a s))) = COMPRESS_ZIP OR COMPRESS_ACTIVE_MASK) \<and>
    (\<not> (OPENVDB_FILE_VERSION_SELECTIVE_COMPRESSION b \<le> a_mFileVersion (fst (snd (readHeader b u a s))) \<and>
        a_mFileVersion (fst (snd (readHeader b u a s))) < OPENVDB_FILE_VERSION_NODE_MASK_COMPRESSION b) \<and>
     \<not> a_mFileVersion (fst (snd (readHeader b u a s))) < OPENVDB_FILE_VERSION_BLOSC_COMPRESSION b \<longrightarrow>
       a_mCompression (fst (snd (readHeader b u a s))) = DEFAULT_COMPRESSION_FLAGS b)"
proof -
  obtain a' s' where res: "readHeader b u a s = (Inr r, a', s')"
    using assms by (cases "readHeader b u a s") auto
  obtain a4 s4 a5 s5 where
    p: "readHeader_prefix b u a s = (a4, s4)" and
    c: "readHeader_compression b u a4 s4 = (a5, s5)" and
    i: "readHeader_uuid b u a5 s5 = (a', s')"
    using readHeader_success_steps[OF res] by blast
  have v: "a_mFileVersion a' = a_mFileVersion a4" and f: "a_mCompression a' = a_mCompression a5"
    using compression_step_frame[OF c] uuid_step_frame[OF i] by simp_all
  show ?thesis
    using compression_step_flags[OF c] by (simp add: res v f p)
qed

theorem readHeader_compression_by_version_witness:
  "fst (readHeader build_224 no_junk (new_Archive build_224) stream_220) = Inr True \<and>
   OPENVDB_FILE_VERSION_SELECTIVE_COMPRESSION build_224
     \<le> a_mFileVersion (fst (snd (readHeader build_224 no_junk (new_Archive build_224) stream_220))) \<and>
   a_mFileVersion (fst (snd (readHeader build_224 no_junk (new_Archive build_224) stream_220)))
     < OPENVDB_FILE_VERSION_NODE_MASK_COMPRESSION build_224 \<and>
   a_mCompression (fst (snd (readHeader build_224 no_junk (new_Archive build_224) stream_220))) =
     (if (le_word (fst (istream_read 1 (no_junk ''isCompressed'')
            (snd (readHeader_prefix build_224 no_junk (new_Archive build_224) stream_220)))) :: byte) \<noteq> 0
      then COMPRESS_ZIP else COMPRESS_NONE)"
proof -
  have h: "fst (readHeader build_224 no_junk (new_Archive build_224) stream_220) = Inr True"
    by (rule readHeader_stream_220)
  have v: "OPENVDB_FILE_VERSION_SELECTIVE_COMPRESSION build_224 \<le> 220"
          "220 < OPENVDB_FILE_VERSION_NODE_MASK_COMPRESSION build_224"
    by (simp_all add: build_224_def)
  show ?thesis
    using readHeader_compression_by_version[OF h] h v
    by (simp add: readHeader_stream_220(2))
qed

text \<open>
  C6. \<open>Archive::readHeader\<close> throws exactly when the eight bytes read for the magic
  number differ from \<open>OPENVDB_MAGIC\<close>; the exception is the \<open>IoError\<close> "not a VDB
  file", which the spec calls \<open>NotAVdbFile\<close>. In that case the archive is unchanged (no
  version, offset flag, compression or UUID has been assigned) and the stream is as the
  read of the magic number left it. On a stream that is good and has eight bytes, the
  bytes read are the first eight bytes of the stream.
\<close>

theorem readHeader_not_a_vdb_file:
  "((\<exists>e. fst (readHeader b u a s) = Inl e)
      = ((le_word (fst (istream_read 8 (u ''magic'') s)) :: int64_t) \<noteq> OPENVDB_MAGIC b)) \<and>
   (fst (readHeader b u a s) = Inl e \<longrightarrow>
      e = IoError ''not a VDB file'' \<and>
      fst (snd (readHeader b u a s)) = a \<and>
      snd (snd (readHeader b u a s)) = snd (istream_read 8 (u ''magic'') s)) \<and>
   (8 \<le> length (inbuf s) \<and> \<not> failbit s \<longrightarrow>
      fst (istream_read 8 (u ''magic'') s) = take 8 (inbuf s) \<and>
      inbuf (snd (istream_read 8 (u ''magic'') s)) = drop 8 (inbuf s))"
proof -
  obtain m s1 where r1: "istream_read 8 (u ''magic'') s = (m, s1)" by force
  have bad: "readHeader b u a s = (Inl (IoError ''not a VDB file''), a, s1)"
    if "(le_word m :: int64_t) \<noteq> OPENVDB_MAGIC b"
    using that by (simp add: readHeader_def r1)
  have good: "\<exists>r. fst (readHeader b u a s) = Inr r"
    if "(le_word m :: int64_t) = OPENVDB_MAGIC b"
    using that by (simp add: readHeader_def r1 Let_def split: prod.splits)
  have rd: "fst (istream_read 8 (u ''magic'') s) = take 8 (inbuf s) \<and>
      inbuf (snd (istream_read 8 (u ''magic'') s)) = drop 8 (inbuf s)"
    if "8 \<le> length (inbuf s)" "\<not> failbit s"
    using that by (simp add: istream_read_def)
  show ?thesis
    using bad good rd by (cases "(le_word m :: int64_t) = OPENVDB_MAGIC b") (auto simp: r1)
qed

lemma read_zero_magic:
  "istream_read 8 (no_junk ''magic'') stream_zero_magic
     = ([0, 0, 0, 0, 0, 0, 0, 0], init_state\<lparr>inbuf := [224, 0, 0, 0]\<rparr>)"
  by (simp add: istream_read_def stream_zero_magic_def init_state_def)

theorem readHeader_not_a_vdb_file_witness:
  "8 \<le> length (inbuf stream_zero_magic) \<and> \<not> failbit stream_zero_magic \<and>
   take 8 (inbuf stream_zero_magic) = [0, 0, 0, 0, 0, 0, 0, 0] \<and>
   fst (readHeader build_224 no_junk (new_Archive build_224) stream_zero_magic)
     = Inl (IoError ''not a VDB file'') \<and>
   fst (snd (readHeader build_224 no_junk (new_Archive build_224) stream_zero_magic))
     = new_Archive build_224 \<and>
   inbuf (snd (snd (readHeader build_224 no_junk (new_Archive build_224) stream_zero_magic)))
     = [224, 0, 0, 0]"
proof -
  have h: "fst (readHeader build_224 no_junk (new_Archive build_224) stream_zero_magic)
     = Inl (IoError ''not a VDB file'')"
    by (simp add: readHeader_def read_zero_magic build_224_def)
  have g: "8 \<le> length (inbuf stream_zero_magic)" "\<not> failbit stream_zero_magic"
      "take 8 (inbuf stream_zero_magic) = [0, 0, 0, 0, 0, 0, 0, 0]"
    by (simp_all add: stream_zero_magic_def init_state_def)
  show ?thesis
    using readHeader_not_a_vdb_file[of build_224 no_junk "new_Archive build_224"
        stream_zero_magic "IoError ''not a VDB file''"] h g
    by (simp add: read_zero_magic)
qed



section \<open>The grid class of a stream\<close>

lemma sint_uint_small:
  "0 \<le> sint (w::64 word) \<Longrightarrow> sint w < 2 ^ 32 \<Longrightarrow> sint w = uint w"
proof -
  assume a: "0 \<le> sint w" "sint w < 2 ^ 32"
  then have "sint w < 2 ^ 64" by simp
  with a show ?thesis by (simp add: uint_sint take_bit_int_eq_self)
qed

lemma uint_ucast_small:
  "uint (w::64 word) < 2 ^ 32 \<Longrightarrow> uint (ucast w :: 32 word) = uint w"
  by (simp add: unsigned_ucast_eq take_bit_int_eq_self)

lemma num_classes_le: "4 \<le> uint (x :: 32 word) \<Longrightarrow> NUM_GRID_CLASSES \<le> x"
  by (simp add: NUM_GRID_CLASSES_def word_le_def)

text \<open>
  C10, as stated, asks for \<open>GRID_UNKNOWN\<close> whenever the word in the grid-class slot
  is at least the number of grid classes. The slot is a \<open>long\<close> and \<open>getGridClass\<close>
  casts it to \<open>uint32_t\<close> before the check: the word \<open>2^32 + 1\<close> is at least 4 and
  is read as \<open>GRID_LEVEL_SET\<close>.
\<close>

theorem getGridClass_counterexample:
  "4 \<le> sint (iword_gridClass stream_big_class) \<and>
   getGridClass stream_big_class = gridClassToWord GRID_LEVEL_SET \<and>
   getGridClass stream_big_class \<noteq> gridClassToWord GRID_UNKNOWN"
  by (simp add: stream_big_class_def init_state_def getGridClass_def NUM_GRID_CLASSES_def)

text \<open>
  C10, amended. For every stream state, \<open>io::getGridClass\<close> returns a valid grid-class
  value (one below \<open>NUM_GRID_CLASSES\<close>, the value of one of the four classes). It
  returns \<open>GRID_UNKNOWN\<close> whenever the word in the grid-class slot, cast to
  \<open>uint32_t\<close>, is at least the number of grid classes; that is so for every word from
  4 up to \<open>2^32 - 1\<close>.
\<close>

theorem getGridClass_valid:
  "getGridClass strm < NUM_GRID_CLASSES \<and>
   (\<exists>c. getGridClass strm = gridClassToWord c) \<and>
   (NUM_GRID_CLASSES \<le> ucast (iword_gridClass strm) \<longrightarrow>
      getGridClass strm = gridClassToWord GRID_UNKNOWN) \<and>
   (4 \<le> sint (iword_gridClass strm) \<and> sint (iword_gridClass strm) < 2 ^ 32 \<longrightarrow>
      getGridClass strm = gridClassToWord GRID_UNKNOWN)"
proof -
  let ?w = "iword_gridClass strm"
  have a: "getGridClass strm < NUM_GRID_CLASSES"
    unfolding getGridClass_def NUM_GRID_CLASSES_def Let_def by (auto simp: not_le)
  then have "getGridClass strm = 0 \<or> getGridClass strm = 1 \<or>
             getGridClass strm = 2 \<or> getGridClass strm = 3"
    by (auto simp: NUM_GRID_CLASSES_def word_less_nat_alt word_unat_eq_iff)
  then have b: "\<exists>c. getGridClass strm = gridClassToWord c"
    by (metis gridClassToWord.simps)
  have c: "getGridClass strm = gridClassToWord GRID_UNKNOWN"
    if "NUM_GRID_CLASSES \<le> ucast ?w"
    using that by (simp add: getGridClass_def)
  have d: "NUM_GRID_CLASSES \<le> ucast ?w"
    if h: "4 \<le> sint ?w" "sint ?w < 2 ^ 32"
  proof -
    have "0 \<le> sint ?w" using h(1) by linarith
    then have e: "sint ?w = uint ?w" using h(2) by (rule sint_uint_small)
    have f: "uint ?w < 2 ^ 32" using h(2) by (simp only: e)
    have g: "uint (ucast ?w :: 32 word) = uint ?w" by (rule uint_ucast_small[OF f])
    have "4 \<le> uint (ucast ?w :: 32 word)" using h(1) by (simp only: g e)
    then show ?thesis by (rule num_classes_le)
  qed
  show ?thesis using a b c d by blast
qed

theorem getGridClass_valid_witness:
  "4 \<le> sint (iword_gridClass stream_class_7) \<and>
   sint (iword_gridClass stream_class_7) < 2 ^ 32 \<and>
   getGridClass stream_class_7 = gridClassToWord GRID_UNKNOWN"
proof -
  have h: "4 \<le> sint (iword_gridClass stream_class_7)"
          "sint (iword_gridClass stream_class_7) < 2 ^ 32"
    by (simp_all add: stream_class_7_def init_state_def)
  show ?thesis
    using getGridClass_valid[of stream_class_7] h by blast
qed

section \<open>Reconnecting instances\<close>

text \<open>
  C7. \<open>Archive::connectInstance\<close>, for a descriptor that marks an instance and whose
  unique name maps to a non-null grid, throws the \<open>KeyError\<close> "missing instance
  parent" (the spec's \<open>MissingInstanceParent\<close>) exactly when the descriptor's
  instance-parent name is absent from the map. When the name maps to a parent grid, no
  exception is thrown; with instancing enabled the grid's tree pointer becomes the
  parent's tree pointer and no tree changes; with instancing disabled the grid's tree
  pointer becomes the address of a new tree object, whose contents are those of the
  parent's tree, and every other tree is unchanged.
\<close>

theorem connectInstance_parent:
  assumes "isInstance gd" and "map_of gridmap (uniqueName gd) = Some (Some grid)"
  shows
   "((\<exists>msg. fst (connectInstance a gd gridmap s) = Some (KeyError msg))
       = (map_of gridmap (instanceParentName gd) = None)) \<and>
    (map_of gridmap (instanceParentName gd) = Some (Some parent) \<longrightarrow>
       fst (connectInstance a gd gridmap s) = None \<and>
       (mEnableInstancing a \<longrightarrow>
          treePtr (grids (snd (connectInstance a gd gridmap s)) grid) = treePtr (grids s parent) \<and>
          trees (snd (connectInstance a gd gridmap s)) = trees s) \<and>
       (\<not> mEnableInstancing a \<longrightarrow>
          treePtr (grids (snd (connectInstance a gd gridmap s)) grid) = next_addr s \<and>
          trees (snd (connectInstance a gd gridmap s)) (next_addr s)
            = trees s (treePtr (grids s parent)) \<and>
          (\<forall>t. t \<noteq> next_addr s \<longrightarrow> trees (snd (connectInstance a gd gridmap s)) t = trees s t) \<and>
          (treePtr (grids s parent) < next_addr s \<longrightarrow>
             treePtr (grids (snd (connectInstance a gd gridmap s)) grid)
               \<noteq> treePtr (grids s parent))))"
proof -
  from assms(2) have ne: "gridmap \<noteq> []" by auto
  show ?thesis
  proof (cases "map_of gridmap (instanceParentName gd)")
    case None
    then show ?thesis using assms ne by (simp add: connectInstance_def)
  next
    case (Some p)
    show ?thesis
    proof (cases p)
      case None
      then show ?thesis using Some assms ne by (simp add: connectInstance_def)
    next
      case (Some par)
      then show ?thesis using \<open>map_of gridmap (instanceParentName gd) = Some p\<close> assms ne
        by (auto simp add: connectInstance_def setTree_def copyTree_def Let_def)
    qed
  qed
qed

lemma instance_descriptor_maps:
  "isInstance instance_descriptor"
  "map_of two_grids_map (uniqueName instance_descriptor) = Some (Some 2)"
  "map_of two_grids_map (instanceParentName instance_descriptor) = Some (Some 1)"
  by (simp_all add: instance_descriptor_def new_GridDescriptor_def isInstance_def
      two_grids_map_def)

theorem connectInstance_parent_witness:
  "isInstance instance_descriptor \<and>
   map_of two_grids_map (uniqueName instance_descriptor) = Some (Some 2) \<and>
   map_of two_grids_map (instanceParentName instance_descriptor) = Some (Some 1) \<and>
   \<not> mEnableInstancing copying_archive \<and>
   fst (connectInstance copying_archive instance_descriptor two_grids_map two_grids) = None \<and>
   treePtr (grids (snd (connectInstance copying_archive instance_descriptor two_grids_map two_grids)) 2)
     = 7 \<and>
   trees (snd (connectInstance copying_archive instance_descriptor two_grids_map two_grids)) 7
     = [1, 2, 3]"
proof -
  note h = instance_descriptor_maps
  have n: "\<not> mEnableInstancing copying_archive"
    by (simp add: copying_archive_def)
  have v: "next_addr two_grids = 7" "trees two_grids (treePtr (grids two_grids 1)) = [1, 2, 3]"
    by (simp_all add: two_grids_def init_state_def empty_grid_def)
  show ?thesis
    using connectInstance_parent[OF h(1) h(2), of copying_archive two_grids 1] h n v by simp
qed

section \<open>Reading and writing a grid\<close>













lemma local_meta_frames:
  "calls (snd (local_meta p f s)) = calls s"
  "iword_fileVersion (snd (local_meta p f s)) = iword_fileVersion s"
  by (simp_all add: local_meta_def split: option.splits)



































end
